theory Spec2Isabelle
  imports Complex_Main "HOL-Library.Word"
begin

section \<open>Data model\<close>

text \<open>
  The declarations of \<^verbatim>\<open>types.ts\<close>: the game phases, the configuration chosen on the
  setup screen and one generated question. The field \<^verbatim>\<open>context\<close> of a question is
  written \<open>context'\<close>, the plain word being reserved.
\<close>

datatype GamePhase = SETUP | PREPARING | READY | PLAYING | ENDED

record TriviaConfig =
  topic :: string
  personality :: string

record GeneratedQuestion =
  question :: string
  answer :: string
  context' :: string

text \<open>
  The part of a \<^verbatim>\<open>LiveServerMessage\<close> that \<^verbatim>\<open>onmessage\<close> reads. Every level is
  optional in the message type, and the handler walks it with optional chaining, so each level is
  an \<open>option\<close> here. The field \<^verbatim>\<open>text\<close> of a part is written \<open>text'\<close>.
\<close>

record InlineData =
  data :: "string option"

record Part =
  text' :: "string option"
  inlineData :: "InlineData option"

record Content =
  parts :: "Part list option"

record ServerContent =
  modelTurn :: "Content option"
  interrupted :: "bool option"

record LiveServerMessage =
  serverContent :: "ServerContent option"

text \<open>
  An entry of the transcript state: \<^verbatim>\<open>{role: 'user'|'model', text: string}\<close>.
\<close>

datatype Role = user | model

type_synonym TranscriptEntry = "Role \<times> string"

text \<open>
  The exceptions the handlers can meet. \<open>DecodeError\<close> and \<open>MalformedPayload\<close> are what the
  two audio helpers throw, \<open>InvalidStateError\<close> is what \<^verbatim>\<open>stop()\<close> throws on a source
  node that was never started, \<open>RangeError\<close> what \<^verbatim>\<open>start(when)\<close> throws on a negative
  time, \<open>NotAllowedError\<close> and \<open>NotFoundError\<close> what \<^verbatim>\<open>getUserMedia\<close> rejects
  with, \<open>SyntaxError\<close> what \<^verbatim>\<open>JSON.parse\<close> throws, \<open>ApiError\<close> a failed model call.
\<close>

datatype exn =
  DecodeError | MalformedPayload | InvalidStateError | RangeError
  | NotAllowedError | NotFoundError | SyntaxError | ApiError

text \<open>
  How a handler ends: it returns, or an exception leaves it. The state a handler has
  written before the exception stays written, so every handler yields the outcome and the state.
\<close>

datatype outcome = Returned | Thrown exn

text \<open>
  An \<^verbatim>\<open>AudioBuffer\<close> as the scheduler reads it (only \<^verbatim>\<open>duration\<close>, in seconds), and
  an \<^verbatim>\<open>AudioBufferSourceNode\<close>: an identity, its buffer and the time given to
  \<^verbatim>\<open>start\<close> (\<open>None\<close> until \<^verbatim>\<open>start\<close> is called). Times are JavaScript numbers,
  taken here as reals.
\<close>

record AudioBuffer =
  duration :: real

record AudioBufferSourceNode =
  nodeId :: nat
  buffer :: AudioBuffer
  startTime :: "real option"

text \<open>
  The state of the \<^verbatim>\<open>App\<close> component: its \<^verbatim>\<open>useState\<close> values and its refs,
  followed by the browser objects the refs point to. Audio contexts, media streams and source
  nodes are known by a number; \<open>closedContexts\<close> lists the contexts \<^verbatim>\<open>close()\<close> has
  closed, \<open>stoppedStreams\<close> the streams whose tracks were stopped, \<open>stopCalls\<close> the source
  nodes \<^verbatim>\<open>stop()\<close> has stopped, \<open>connects\<close> counts the calls of
  \<^verbatim>\<open>ai.live.connect\<close>. The two analyser refs only feed the visualiser and are left out.
\<close>

record App =
  phase :: GamePhase
  config :: "TriviaConfig option"
  questions :: "GeneratedQuestion list"
  error :: "string option"
  audioContextRef :: "nat option"
  streamRef :: "nat option"
  nextStartTimeRef :: real
  sourcesRef :: "AudioBufferSourceNode list"
  sessionRef :: "nat option"
  isConnected :: bool
  transcript :: "TranscriptEntry list"
  nextContextId :: nat
  closedContexts :: "nat list"
  nextStreamId :: nat
  stoppedStreams :: "nat list"
  nextNodeId :: nat
  stopCalls :: "nat list"
  closedSessions :: "nat list"
  connects :: nat

definition initialApp :: App where
  "initialApp =
     \<lparr>phase = SETUP, config = None, questions = [], error = None,
      audioContextRef = None, streamRef = None, nextStartTimeRef = 0, sourcesRef = [],
      sessionRef = None, isConnected = False, transcript = [],
      nextContextId = 0, closedContexts = [], nextStreamId = 0, stoppedStreams = [],
      nextNodeId = 0, stopCalls = [], closedSessions = [], connects = 0\<rparr>"

section \<open>The message handler of the live session\<close>

text \<open>
  \<^verbatim>\<open>message.serverContent?.modelTurn?.parts?.[0]\<close>: the first part, when every level on
  the way is present.
\<close>

definition firstPart :: "LiveServerMessage \<Rightarrow> Part option" where
  "firstPart message =
     (case serverContent message of
        None \<Rightarrow> None
      | Some sc \<Rightarrow>
          (case modelTurn sc of
             None \<Rightarrow> None
           | Some mt \<Rightarrow>
               (case parts mt of
                  None \<Rightarrow> None
                | Some ps \<Rightarrow> (case ps of [] \<Rightarrow> None | p # _ \<Rightarrow> Some p))))"

text \<open>
  The two values the handler tests for truthiness: an absent value and the empty string are
  both falsy, so each accessor answers \<open>Some\<close> only for a non-empty string.
\<close>

definition messageText :: "LiveServerMessage \<Rightarrow> string option" where
  "messageText message =
     (case firstPart message of
        None \<Rightarrow> None
      | Some p \<Rightarrow> (case text' p of None \<Rightarrow> None | Some t \<Rightarrow> if t = [] then None else Some t))"

definition base64Audio :: "LiveServerMessage \<Rightarrow> string option" where
  "base64Audio message =
     (case firstPart message of
        None \<Rightarrow> None
      | Some p \<Rightarrow>
          (case inlineData p of
             None \<Rightarrow> None
           | Some d \<Rightarrow> (case data d of None \<Rightarrow> None | Some b \<Rightarrow> if b = [] then None else Some b)))"

definition isInterrupted :: "LiveServerMessage \<Rightarrow> bool" where
  "isInterrupted message =
     (case serverContent message of
        None \<Rightarrow> False
      | Some sc \<Rightarrow> (case interrupted sc of None \<Rightarrow> False | Some b \<Rightarrow> b))"

text \<open>
  Lines 153 to 156 of the component: a truthy text of the first part is appended to the
  transcript with the role \<open>model\<close>.
\<close>

definition handleTranscript :: "LiveServerMessage \<Rightarrow> App \<Rightarrow> App" where
  "handleTranscript message s =
     (case messageText message of
        None \<Rightarrow> s
      | Some t \<Rightarrow> s\<lparr>transcript := transcript s @ [(model, t)]\<rparr>)"

text \<open>
  Lines 159 to 182. \<open>decodeAudio\<close> stands for
  \<^verbatim>\<open>decodeAudioData(base64ToUint8Array(base64Audio), outputCtx, 24000, 1)\<close>, whose module
  is not part of the sources: it answers the buffer or the exception thrown. \<open>clockNow\<close> is
  the reading of \<^verbatim>\<open>outputCtx.currentTime\<close>. The handler first moves
  \<^verbatim>\<open>nextStartTimeRef\<close> up to the clock, then decodes, creates the source node, starts it at
  \<^verbatim>\<open>nextStartTimeRef\<close>, advances the ref by the duration and adds the node to the
  registry. The node is new, so adding it to the \<^verbatim>\<open>Set\<close> puts it last. The body runs
  to its end before the next message is handled.
\<close>

definition handleAudio ::
  "(string \<Rightarrow> exn + AudioBuffer) \<Rightarrow> real \<Rightarrow> LiveServerMessage \<Rightarrow> App \<Rightarrow> outcome \<times> App" where
  "handleAudio decodeAudio clockNow message s =
     (case base64Audio message of
        None \<Rightarrow> (Returned, s)
      | Some b64 \<Rightarrow>
          (let s1 = s\<lparr>nextStartTimeRef := max (nextStartTimeRef s) clockNow\<rparr> in
           case decodeAudio b64 of
             Inl e \<Rightarrow> (Thrown e, s1)
           | Inr audioBuffer \<Rightarrow>
               (if nextStartTimeRef s1 < 0 then (Thrown RangeError, s1)
                else
                  (let sourceNode =
                         \<lparr>nodeId = nextNodeId s1, buffer = audioBuffer,
                          startTime = Some (nextStartTimeRef s1)\<rparr>
                   in (Returned,
                       s1\<lparr>nextNodeId := Suc (nextNodeId s1),
                          nextStartTimeRef := nextStartTimeRef s1 + duration audioBuffer,
                          sourcesRef := sourcesRef s1 @ [sourceNode]\<rparr>)))))"

text \<open>
  \<^verbatim>\<open>sourcesRef.current.forEach(s => s.stop())\<close>: the nodes are stopped in the order of the
  set; \<^verbatim>\<open>stop()\<close> on a node that was never started throws and ends the loop there.
\<close>

fun forEach_stop :: "AudioBufferSourceNode list \<Rightarrow> nat list \<Rightarrow> exn option \<times> nat list" where
  "forEach_stop [] stopped = (None, stopped)"
| "forEach_stop (n # ns) stopped =
     (case startTime n of
        None \<Rightarrow> (Some InvalidStateError, stopped)
      | Some _ \<Rightarrow> forEach_stop ns (List.insert (nodeId n) stopped))"

text \<open>Lines 184 to 189: on an interruption every source is stopped, the registry cleared and
  the next start time set to 0.\<close>

definition handleInterruption :: "LiveServerMessage \<Rightarrow> App \<Rightarrow> outcome \<times> App" where
  "handleInterruption message s =
     (if isInterrupted message then
        (case forEach_stop (sourcesRef s) (stopCalls s) of
           (Some e, stopped) \<Rightarrow> (Thrown e, s\<lparr>stopCalls := stopped\<rparr>)
         | (None, stopped) \<Rightarrow>
             (Returned, s\<lparr>stopCalls := stopped, sourcesRef := [], nextStartTimeRef := 0\<rparr>))
      else (Returned, s))"

text \<open>The whole \<^verbatim>\<open>onmessage\<close> callback: transcript, audio, interruption, in this order;
  an exception in the audio part skips the interruption part.\<close>

definition onmessage ::
  "(string \<Rightarrow> exn + AudioBuffer) \<Rightarrow> real \<Rightarrow> LiveServerMessage \<Rightarrow> App \<Rightarrow> outcome \<times> App" where
  "onmessage decodeAudio clockNow message s =
     (case handleAudio decodeAudio clockNow message (handleTranscript message s) of
        (Thrown e, s') \<Rightarrow> (Thrown e, s')
      | (Returned, s') \<Rightarrow> handleInterruption message s')"

text \<open>\<^verbatim>\<open>sourceNode.onended\<close>: the ended node is deleted from the registry.\<close>

definition onended :: "nat \<Rightarrow> App \<Rightarrow> App" where
  "onended n s = s\<lparr>sourcesRef := filter (\<lambda>x. nodeId x \<noteq> n) (sourcesRef s)\<rparr>"

section \<open>Session lifecycle\<close>

text \<open>
  \<^verbatim>\<open>endSession\<close> (lines 39 to 52): the tracks of the stream are stopped, the audio context
  of the ref is closed, the session of the ref is closed inside a \<^verbatim>\<open>try\<close> whose
  \<^verbatim>\<open>catch\<close> is empty, every registered source is stopped, the registry cleared and the
  connected flag lowered. Stopping a stopped track does nothing; \<^verbatim>\<open>close()\<close> on a closed
  context answers a rejected promise that nobody awaits and throws nothing; so both are
  insertions into a list without repetition. \<^verbatim>\<open>nextStartTimeRef\<close> is not written.
\<close>

definition endSession :: "App \<Rightarrow> outcome \<times> App" where
  "endSession s =
     (let s1 = (case streamRef s of
                  None \<Rightarrow> s
                | Some st \<Rightarrow> s\<lparr>stoppedStreams := List.insert st (stoppedStreams s)\<rparr>);
          s2 = (case audioContextRef s1 of
                  None \<Rightarrow> s1
                | Some c \<Rightarrow> s1\<lparr>closedContexts := List.insert c (closedContexts s1)\<rparr>);
          s3 = (case sessionRef s2 of
                  None \<Rightarrow> s2
                | Some k \<Rightarrow> s2\<lparr>closedSessions := List.insert k (closedSessions s2)\<rparr>)
      in case forEach_stop (sourcesRef s3) (stopCalls s3) of
           (Some e, stopped) \<Rightarrow> (Thrown e, s3\<lparr>stopCalls := stopped\<rparr>)
         | (None, stopped) \<Rightarrow>
             (Returned, s3\<lparr>stopCalls := stopped, sourcesRef := [], isConnected := False\<rparr>))"

text \<open>
  \<^verbatim>\<open>handleStart\<close> (lines 54 to 72), with the answer of \<^verbatim>\<open>generateQuestions\<close> given:
  the questions, or the exception it rejected with. The grounding sources are only displayed
  and are left out.
\<close>

definition handleStart :: "TriviaConfig \<Rightarrow> exn + GeneratedQuestion list \<Rightarrow> App \<Rightarrow> App" where
  "handleStart newConfig generated s =
     (let s1 = s\<lparr>config := Some newConfig, phase := PREPARING, error := None\<rparr> in
      case generated of
        Inr generatedQuestions \<Rightarrow> s1\<lparr>questions := generatedQuestions, phase := READY\<rparr>
      | Inl e \<Rightarrow>
          s1\<lparr>error := Some ''Failed to generate questions. Please try again.'',
             phase := SETUP\<rparr>)"

text \<open>
  \<^verbatim>\<open>startLiveSession\<close> (lines 74 to 221), with the answer of \<^verbatim>\<open>getUserMedia\<close>
  given. Without a configuration or without questions it returns at once. Otherwise the phase
  becomes \<open>PLAYING\<close>, the input and the output context are created and the output context is
  stored in the ref; then, inside the \<^verbatim>\<open>try\<close>, the microphone is asked for. When it is
  granted, the stream is stored and \<^verbatim>\<open>ai.live.connect\<close> is called; when it is refused,
  control is in the \<^verbatim>\<open>catch\<close>, which sets the error message and the phase \<open>SETUP\<close>.
\<close>

definition startLiveSession :: "exn + unit \<Rightarrow> App \<Rightarrow> outcome \<times> App" where
  "startLiveSession microphone s =
     (if config s = None \<or> questions s = [] then (Returned, s)
      else
        (let outputCtx = Suc (nextContextId s);
             s1 = s\<lparr>phase := PLAYING, nextContextId := Suc (Suc (nextContextId s)),
                    audioContextRef := Some outputCtx\<rparr>
         in case microphone of
              Inr _ \<Rightarrow>
                (Returned,
                 s1\<lparr>streamRef := Some (nextStreamId s1), nextStreamId := Suc (nextStreamId s1),
                    connects := Suc (connects s1)\<rparr>)
            | Inl e \<Rightarrow>
                (Returned,
                 s1\<lparr>error := Some ''Microphone access denied or API error.'',
                    phase := SETUP\<rparr>)))"

text \<open>The callbacks \<^verbatim>\<open>onopen\<close>, \<^verbatim>\<open>onclose\<close> and \<^verbatim>\<open>onerror\<close> (lines 137 to 151
  and 195 to 202), as far as they write the state.\<close>

definition onopen :: "App \<Rightarrow> App" where
  "onopen s = s\<lparr>isConnected := True\<rparr>"

definition onclose :: "App \<Rightarrow> App" where
  "onclose s = s\<lparr>isConnected := False\<rparr>"

definition onerror :: "App \<Rightarrow> App" where
  "onerror s = s\<lparr>error := Some ''Connection error.''\<rparr>"

text \<open>\<^verbatim>\<open>handleEndGame\<close> (lines 223 to 239) up to the summary speech, and the button
  \<^verbatim>\<open>Play Again\<close>.\<close>

definition handleEndGame :: "App \<Rightarrow> outcome \<times> App" where
  "handleEndGame s =
     (case endSession s of
        (Thrown e, s') \<Rightarrow> (Thrown e, s')
      | (Returned, s') \<Rightarrow> (Returned, s'\<lparr>phase := ENDED\<rparr>))"

definition playAgain :: "App \<Rightarrow> App" where
  "playAgain s = s\<lparr>phase := SETUP\<rparr>"

text \<open>
  Everything that can happen to the component, and the states it can reach from the initial
  one. An event carries what the environment decides: the answer of the question generator, of
  the microphone, the clock reading and the message, the node that ended.
\<close>

datatype Event =
  EvHandleStart TriviaConfig "exn + GeneratedQuestion list"
  | EvStartLiveSession "exn + unit"
  | EvOpen
  | EvMessage real LiveServerMessage
  | EvClose
  | EvError
  | EvEnded nat
  | EvEndGame
  | EvPlayAgain
  | EvUnmount

fun dispatch :: "(string \<Rightarrow> exn + AudioBuffer) \<Rightarrow> Event \<Rightarrow> App \<Rightarrow> App" where
  "dispatch decodeAudio (EvHandleStart c g) s = handleStart c g s"
| "dispatch decodeAudio (EvStartLiveSession m) s = snd (startLiveSession m s)"
| "dispatch decodeAudio EvOpen s = onopen s"
| "dispatch decodeAudio (EvMessage clockNow message) s = snd (onmessage decodeAudio clockNow message s)"
| "dispatch decodeAudio EvClose s = onclose s"
| "dispatch decodeAudio EvError s = onerror s"
| "dispatch decodeAudio (EvEnded n) s = onended n s"
| "dispatch decodeAudio EvEndGame s = snd (handleEndGame s)"
| "dispatch decodeAudio EvPlayAgain s = playAgain s"
| "dispatch decodeAudio EvUnmount s = snd (endSession s)"

fun run :: "(string \<Rightarrow> exn + AudioBuffer) \<Rightarrow> Event list \<Rightarrow> App \<Rightarrow> App" where
  "run decodeAudio [] s = s"
| "run decodeAudio (ev # evs) s = run decodeAudio evs (dispatch decodeAudio ev s)"

inductive reachable :: "(string \<Rightarrow> exn + AudioBuffer) \<Rightarrow> App \<Rightarrow> bool"
  for decodeAudio :: "string \<Rightarrow> exn + AudioBuffer" where
  reachable_init: "reachable decodeAudio initialApp"
| reachable_step: "reachable decodeAudio s \<Longrightarrow> reachable decodeAudio (dispatch decodeAudio ev s)"

text \<open>Every source of the registry has been started.\<close>

definition registryStarted :: "App \<Rightarrow> bool" where
  "registryStarted s = list_all (\<lambda>n. startTime n \<noteq> None) (sourcesRef s)"

text \<open>The events that are callbacks of the session or of a source node, as opposed to the
  actions of the user and the unmounting of the component.\<close>

fun callbackEvent :: "Event \<Rightarrow> bool" where
  "callbackEvent EvOpen = True"
| "callbackEvent (EvMessage clockNow message) = True"
| "callbackEvent EvClose = True"
| "callbackEvent EvError = True"
| "callbackEvent (EvEnded n) = True"
| "callbackEvent ev = False"

section \<open>Question generation\<close>

text \<open>
  What \<^verbatim>\<open>generateQuestions\<close> reads of the answer of the model: \<^verbatim>\<open>response.text\<close>, which
  may be undefined, and the grounding chunks of the first candidate, here strings.
\<close>

record GenerateContentResponse =
  responseText :: "string option"
  groundingChunks :: "string list option"

text \<open>
  The regular expression of line 42 is a fence of three backquotes, the word \<^verbatim>\<open>json\<close>,
  white space, a lazy group, white space and a closing fence. \<open>isSpace\<close> is the class
  \<^verbatim>\<open>\s\<close> on the characters a \<open>char\<close> can hold.
\<close>

definition isSpace :: "char \<Rightarrow> bool" where
  "isSpace c = (of_char c \<in> {9, 10, 11, 12, 13, 32, 160 :: nat})"

definition fence :: string where
  "fence = [CHR 0x60, CHR 0x60, CHR 0x60]"

definition startsWith :: "string \<Rightarrow> string \<Rightarrow> bool" where
  "startsWith pat s = (take (length pat) s = pat)"

text \<open>The text after the first occurrence of a pattern, and the text before it.\<close>

fun afterFirst :: "string \<Rightarrow> string \<Rightarrow> string option" where
  "afterFirst pat [] = (if pat = [] then Some [] else None)"
| "afterFirst pat (c # cs) =
     (if startsWith pat (c # cs) then Some (drop (length pat) (c # cs)) else afterFirst pat cs)"

fun beforeFirst :: "string \<Rightarrow> string \<Rightarrow> string option" where
  "beforeFirst pat [] = (if pat = [] then Some [] else None)"
| "beforeFirst pat (c # cs) =
     (if startsWith pat (c # cs) then Some []
      else (case beforeFirst pat cs of None \<Rightarrow> None | Some body \<Rightarrow> Some (c # body)))"

text \<open>
  \<^verbatim>\<open>text.match(...)\<close>: \<open>None\<close> when there is no match, otherwise the group. The match
  starts at the first opening fence; the greedy white space takes all the white space after
  it; the lazy group ends at the first place from which only white space separates it from a
  fence, so it is the text up to the next fence without its trailing white space.
\<close>

definition jsonMatch :: "string \<Rightarrow> string option" where
  "jsonMatch text =
     (case afterFirst (fence @ ''json'') text of
        None \<Rightarrow> None
      | Some rest \<Rightarrow>
          (case beforeFirst fence (dropWhile isSpace rest) of
             None \<Rightarrow> None
           | Some body \<Rightarrow> Some (rev (dropWhile isSpace (rev body)))))"

text \<open>The question of lines 52 to 56, with the topic spliced in twice.\<close>

definition fallbackQuestion :: "string \<Rightarrow> GeneratedQuestion" where
  "fallbackQuestion t =
     \<lparr>question = ''I couldn'' @ [CHR 0x27] @ ''t auto-generate specific questions about '' @ t @
        '', but let'' @ [CHR 0x27] @ ''s play anyway! What is the main thing you know about '' @
        t @ ''?'',
      answer = ''N/A'',
      context' = ''Sometimes even AI has a hiccup!''\<rparr>"

text \<open>
  Lines 40 to 57. \<open>JSON_parse\<close> is the library function \<^verbatim>\<open>JSON.parse\<close>, a parameter here:
  it answers the parsed value, which the code takes for a list of questions, or the exception.
  A match with a non-empty group is parsed from the group, anything else from the whole text;
  the \<^verbatim>\<open>catch\<close> answers the one fallback question.
\<close>

definition parseQuestions ::
  "(string \<Rightarrow> exn + GeneratedQuestion list) \<Rightarrow> string \<Rightarrow> string \<Rightarrow> GeneratedQuestion list" where
  "parseQuestions JSON_parse t text =
     (case (case jsonMatch text of
              Some m \<Rightarrow> if m \<noteq> [] then JSON_parse m else JSON_parse text
            | None \<Rightarrow> JSON_parse text) of
        Inr parsed \<Rightarrow> parsed
      | Inl e \<Rightarrow> [fallbackQuestion t])"

text \<open>
  \<^verbatim>\<open>generateQuestions\<close>, with the outcome of the model call given: a rejected call
  rejects the whole function; otherwise the questions and the sources are returned.
\<close>

definition generateQuestions ::
  "(string \<Rightarrow> exn + GeneratedQuestion list) \<Rightarrow> string \<Rightarrow> exn + GenerateContentResponse \<Rightarrow>
   exn + GeneratedQuestion list \<times> string list" where
  "generateQuestions JSON_parse t modelCall =
     (case modelCall of
        Inl e \<Rightarrow> Inl e
      | Inr response \<Rightarrow>
          (let sources = (case groundingChunks response of None \<Rightarrow> [] | Some cs \<Rightarrow> cs);
               text = (case responseText response of None \<Rightarrow> [] | Some x \<Rightarrow> x)
           in Inr (parseQuestions JSON_parse t text, sources)))"

text \<open>The text that reaches \<^verbatim>\<open>JSON.parse\<close>: the group of a match when it is not empty,
  the whole text otherwise.\<close>

definition jsonSource :: "string \<Rightarrow> string" where
  "jsonSource text =
     (case jsonMatch text of Some m \<Rightarrow> if m \<noteq> [] then m else text | None \<Rightarrow> text)"

section \<open>PCM codec\<close>

text \<open>
  Modelled from the spec: the module \<^verbatim>\<open>services/audioUtils\<close> (\<^verbatim>\<open>createPcmBlob\<close>,
  \<^verbatim>\<open>decodeAudioData\<close>, \<^verbatim>\<open>base64ToUint8Array\<close>) is imported by the component and
  is not part of the sources. Section 4.1: each sample is clamped to [-1, 1].
\<close>

definition clamp :: "real \<Rightarrow> real" where
  "clamp x = max (- 1) (min 1 x)"

text \<open>
  Modelled from the spec: section 4.1, truncation to an integer (towards zero), the step
  missing with the module \<^verbatim>\<open>services/audioUtils\<close>.
\<close>

definition truncToInt :: "real \<Rightarrow> int" where
  "truncToInt x = (if x < 0 then \<lceil>x\<rceil> else \<lfloor>x\<rfloor>)"

text \<open>
  Modelled from the spec: section 4.1, the 16-bit signed value of one sample (module
  \<^verbatim>\<open>services/audioUtils\<close> is missing): the clamped sample is scaled by 0x7FFF, by 0x8000
  when it is negative, truncated and stored in 16 bits.
\<close>

definition quantize :: "real \<Rightarrow> 16 word" where
  "quantize x =
     (let c = clamp x in word_of_int (truncToInt (if c < 0 then c * 0x8000 else c * 0x7FFF)))"

text \<open>
  Modelled from the spec: section 4.1, a 16-bit value is emitted little-endian, low byte
  first (module \<^verbatim>\<open>services/audioUtils\<close> is missing).
\<close>

definition littleEndian :: "16 word \<Rightarrow> 8 word list" where
  "littleEndian w = [ucast w, ucast (drop_bit 8 w)]"

text \<open>
  Modelled from the spec: \<^verbatim>\<open>encode\<close> of section 4.1 (module
  \<^verbatim>\<open>services/audioUtils\<close> is missing), the bytes of all samples in order.
\<close>

definition encode :: "real list \<Rightarrow> 8 word list" where
  "encode xs = concat (map (\<lambda>x. littleEndian (quantize x)) xs)"

text \<open>
  Modelled from the spec: section 4.2, the bytes read as little-endian 16-bit values, two
  bytes each (module \<^verbatim>\<open>services/audioUtils\<close> is missing).
\<close>

fun int16s :: "8 word list \<Rightarrow> 16 word list" where
  "int16s (lo # hi # rest) = word_cat hi lo # int16s rest"
| "int16s rest = []"

text \<open>
  Modelled from the spec: the PlaybackBuffer of section 3 (module
  \<^verbatim>\<open>services/audioUtils\<close> is missing): the samples as one interleaved run, the sample
  rate and the number of channels.
\<close>

record PlaybackBuffer =
  samples :: "real list"
  sampleRate :: nat
  numberOfChannels :: nat

text \<open>
  Modelled from the spec: \<^verbatim>\<open>decode\<close> of section 4.2 (module
  \<^verbatim>\<open>services/audioUtils\<close> is missing). A length that is not a multiple of twice the
  channel count is a \<open>DecodeError\<close>; otherwise each 16-bit value, read as signed, is divided
  by 0x8000.
\<close>

definition decode :: "8 word list \<Rightarrow> nat \<Rightarrow> nat \<Rightarrow> exn + PlaybackBuffer" where
  "decode bytes rate channelCount =
     (if length bytes mod (2 * channelCount) \<noteq> 0 then Inl DecodeError
      else Inr \<lparr>samples = map (\<lambda>w. real_of_int (sint w) / 0x8000) (int16s bytes),
                sampleRate = rate, numberOfChannels = channelCount\<rparr>)"

section \<open>Example inputs\<close>

text \<open>
  Messages with one part (audio or text), a message whose text comes in its second part,
  and the interruption signal.
\<close>

definition audioMessage :: "string \<Rightarrow> LiveServerMessage" where
  "audioMessage b64 =
     \<lparr>serverContent = Some \<lparr>modelTurn = Some \<lparr>parts = Some
        [\<lparr>text' = None, inlineData = Some \<lparr>data = Some b64\<rparr>\<rparr>]\<rparr>, interrupted = None\<rparr>\<rparr>"

definition textMessage :: "string \<Rightarrow> LiveServerMessage" where
  "textMessage t =
     \<lparr>serverContent = Some \<lparr>modelTurn = Some \<lparr>parts = Some
        [\<lparr>text' = Some t, inlineData = None\<rparr>]\<rparr>, interrupted = None\<rparr>\<rparr>"

definition audioThenTextMessage :: "string \<Rightarrow> string \<Rightarrow> LiveServerMessage" where
  "audioThenTextMessage b64 t =
     \<lparr>serverContent = Some \<lparr>modelTurn = Some \<lparr>parts = Some
        [\<lparr>text' = None, inlineData = Some \<lparr>data = Some b64\<rparr>\<rparr>,
         \<lparr>text' = Some t, inlineData = None\<rparr>]\<rparr>, interrupted = None\<rparr>\<rparr>"

definition interruptedMessage :: LiveServerMessage where
  "interruptedMessage = \<lparr>serverContent = Some \<lparr>modelTurn = None, interrupted = Some True\<rparr>\<rparr>"

text \<open>
  A decoder for the examples: the payload \<open>B1\<close> is a buffer of one second, \<open>B2\<close> one of
  half a second, every other payload fails to decode.
\<close>

definition decodeB :: "string \<Rightarrow> exn + AudioBuffer" where
  "decodeB b64 =
     (if b64 = ''B1'' then Inr \<lparr>duration = 1\<rparr>
      else if b64 = ''B2'' then Inr \<lparr>duration = 1 / 2\<rparr>
      else Inl DecodeError)"

text \<open>
  States of a game: the questions are ready; the session is connected; one buffer has been
  scheduled; three buffers have been scheduled.
\<close>

definition demoConfig :: TriviaConfig where
  "demoConfig = \<lparr>topic = ''Space'', personality = ''Cheerful''\<rparr>"

definition demoQuestion :: GeneratedQuestion where
  "demoQuestion = \<lparr>question = ''Q'', answer = ''A'', context' = ''C''\<rparr>"

definition readyApp :: App where
  "readyApp = run decodeB [EvHandleStart demoConfig (Inr [demoQuestion])] initialApp"

definition connectedSession :: App where
  "connectedSession = run decodeB [EvStartLiveSession (Inr ()), EvOpen] readyApp"

definition liveSession :: App where
  "liveSession = run decodeB [EvMessage 0 (audioMessage ''B1'')] connectedSession"

definition afterB1 :: App where
  "afterB1 = snd (onmessage decodeB 0 (audioMessage ''B1'') initialApp)"


text \<open>
  \<^verbatim>\<open>JSON.parse\<close> on the one text the examples parse: the text of two brackets is the empty
  array; every other text is refused here. A reply of the model that fences that text.
\<close>

definition parseEmptyArrayOnly :: "string \<Rightarrow> exn + GeneratedQuestion list" where
  "parseEmptyArrayOnly src = (if src = ''[]'' then Inr [] else Inl SyntaxError)"

definition fencedEmptyArray :: string where
  "fencedEmptyArray =
     ''Here you go: '' @ fence @ ''json'' @ [CHR 0x0A] @ ''[]'' @ [CHR 0x0A] @ fence"

section \<open>Unfolding rules and basic facts\<close>

lemmas handler_defs =
  onmessage_def handleAudio_def handleTranscript_def handleInterruption_def
  isInterrupted_def messageText_def base64Audio_def firstPart_def

lemmas life_defs =
  handleStart_def startLiveSession_def onopen_def onclose_def onerror_def
  playAgain_def handleEndGame_def endSession_def onended_def

lemmas msg_defs =
  audioMessage_def textMessage_def audioThenTextMessage_def interruptedMessage_def decodeB_def

lemmas demo_defs =
  demoConfig_def demoQuestion_def readyApp_def connectedSession_def liveSession_def

subsection \<open>Stopping the registry\<close>

lemma forEach_stop_started:
  "list_all (\<lambda>n. startTime n \<noteq> None) ns \<Longrightarrow> fst (forEach_stop ns stopped) = None"
  by (induction ns arbitrary: stopped) (auto split: option.splits)



lemma endSession_started:
  assumes "registryStarted s"
  shows "endSession s =
     (Returned,
      s\<lparr>stoppedStreams :=
           (case streamRef s of None \<Rightarrow> stoppedStreams s
            | Some st \<Rightarrow> List.insert st (stoppedStreams s)),
        closedContexts :=
           (case audioContextRef s of None \<Rightarrow> closedContexts s
            | Some c \<Rightarrow> List.insert c (closedContexts s)),
        closedSessions :=
           (case sessionRef s of None \<Rightarrow> closedSessions s
            | Some k \<Rightarrow> List.insert k (closedSessions s)),
        stopCalls := snd (forEach_stop (sourcesRef s) (stopCalls s)),
        sourcesRef := [], isConnected := False\<rparr>)"
proof -
  have "fst (forEach_stop (sourcesRef s) (stopCalls s)) = None"
    using assms by (simp add: registryStarted_def forEach_stop_started)
  then show ?thesis
    by (cases "forEach_stop (sourcesRef s) (stopCalls s)")
       (simp add: endSession_def Let_def split: option.splits)
qed

subsection \<open>The outcome of the message handler\<close>

text \<open>The handler ends in its audio part when that part throws, and in its interruption part
  otherwise.\<close>

lemma onmessage_cases:
  "onmessage decodeAudio clockNow message s =
     (case fst (handleAudio decodeAudio clockNow message (handleTranscript message s)) of
        Thrown e \<Rightarrow>
          (Thrown e, snd (handleAudio decodeAudio clockNow message (handleTranscript message s)))
      | Returned \<Rightarrow>
          handleInterruption message
            (snd (handleAudio decodeAudio clockNow message (handleTranscript message s))))"
  by (cases "handleAudio decodeAudio clockNow message (handleTranscript message s)")
     (simp add: onmessage_def split: outcome.splits)

subsection \<open>Every registered source has been started\<close>

lemma registryStarted_handleTranscript:
  "registryStarted (handleTranscript message s) = registryStarted s"
  by (simp add: registryStarted_def handleTranscript_def split: option.splits)

lemma registryStarted_handleAudio:
  "registryStarted s \<Longrightarrow> registryStarted (snd (handleAudio decodeAudio clockNow message s))"
  by (simp add: registryStarted_def handleAudio_def Let_def split: option.splits sum.splits)

lemma registryStarted_handleInterruption:
  "registryStarted s \<Longrightarrow> registryStarted (snd (handleInterruption message s))"
  by (simp add: registryStarted_def handleInterruption_def split: prod.splits option.splits)

lemma registryStarted_onmessage:
  assumes "registryStarted s"
  shows "registryStarted (snd (onmessage decodeAudio clockNow message s))"
proof -
  have "registryStarted (snd (handleAudio decodeAudio clockNow message (handleTranscript message s)))"
    using assms by (simp add: registryStarted_handleAudio registryStarted_handleTranscript)
  then show ?thesis
    by (simp add: onmessage_cases registryStarted_handleInterruption split: outcome.splits)
qed

lemma registryStarted_endSession:
  "registryStarted s \<Longrightarrow> registryStarted (snd (endSession s))"
  by (simp add: endSession_started) (simp add: registryStarted_def)

lemma dispatch_registryStarted:
  assumes "registryStarted s"
  shows "registryStarted (dispatch decodeAudio ev s)"
proof (cases ev)
  case (EvMessage clockNow message)
  then show ?thesis using assms by (simp add: registryStarted_onmessage)
next
  case (EvEnded n)
  then show ?thesis using assms by (simp add: registryStarted_def onended_def list_all_iff)
next
  case EvEndGame
  then show ?thesis using assms
    by (simp add: handleEndGame_def endSession_started) (simp add: registryStarted_def)
next
  case EvUnmount
  then show ?thesis using assms by (simp add: registryStarted_endSession)
next
  case (EvHandleStart c g)
  then show ?thesis using assms
    by (simp add: registryStarted_def handleStart_def Let_def split: sum.splits)
next
  case (EvStartLiveSession m)
  then show ?thesis using assms
    by (simp add: registryStarted_def startLiveSession_def Let_def split: sum.splits)
qed (use assms in \<open>simp_all add: registryStarted_def onopen_def onclose_def onerror_def playAgain_def\<close>)

lemma reachable_registryStarted: "reachable decodeAudio s \<Longrightarrow> registryStarted s"
proof (induction rule: reachable.induct)
  case reachable_init
  show ?case by (simp add: registryStarted_def initialApp_def)
next
  case (reachable_step s ev)
  then show ?case by (simp add: dispatch_registryStarted)
qed

lemma reachable_run: "reachable decodeAudio s \<Longrightarrow> reachable decodeAudio (run decodeAudio evs s)"
  by (induction evs arbitrary: s) (auto intro: reachable_step)

section \<open>Playback scheduling\<close>

text \<open>
  Claim C1. A fragment whose audio decodes to the buffer \<open>b\<close>, handled at the clock reading
  \<open>clockNow\<close>, creates one source node started at the maximum of the next start time and
  \<open>clockNow\<close>, registers it last, and leaves the next start time at that start plus the
  duration of \<open>b\<close>. From the initial state, a buffer of one second handled at clock 0 and a
  buffer of half a second handled at clock 0.3 are started at 0 and at 1, and the next start
  time is then 1.5: the second begins where the first ends.
\<close>

theorem audio_fragment_scheduled:
  "(0 \<le> clockNow \<and> base64Audio message = Some b64 \<and> decodeAudio b64 = Inr b \<longrightarrow>
      handleAudio decodeAudio clockNow message s =
        (Returned,
         s\<lparr>nextStartTimeRef := max (nextStartTimeRef s) clockNow + duration b,
           nextNodeId := Suc (nextNodeId s),
           sourcesRef := sourcesRef s @
             [\<lparr>nodeId = nextNodeId s, buffer = b,
               startTime = Some (max (nextStartTimeRef s) clockNow)\<rparr>]\<rparr>)) \<and>
   (let s1 = snd (onmessage decodeB 0 (audioMessage ''B1'') initialApp);
        s2 = snd (onmessage decodeB (3 / 10) (audioMessage ''B2'') s1)
    in map startTime (sourcesRef s1) = [Some 0] \<and> nextStartTimeRef s1 = 1 \<and>
       map startTime (sourcesRef s2) = [Some 0, Some 1] \<and> nextStartTimeRef s2 = 3 / 2)"
proof (intro conjI impI)
  assume "0 \<le> clockNow \<and> base64Audio message = Some b64 \<and> decodeAudio b64 = Inr b"
  then show "handleAudio decodeAudio clockNow message s =
        (Returned,
         s\<lparr>nextStartTimeRef := max (nextStartTimeRef s) clockNow + duration b,
           nextNodeId := Suc (nextNodeId s),
           sourcesRef := sourcesRef s @
             [\<lparr>nodeId = nextNodeId s, buffer = b,
               startTime = Some (max (nextStartTimeRef s) clockNow)\<rparr>]\<rparr>)"
    by (simp add: handleAudio_def Let_def)
next
  show "let s1 = snd (onmessage decodeB 0 (audioMessage ''B1'') initialApp);
        s2 = snd (onmessage decodeB (3 / 10) (audioMessage ''B2'') s1)
    in map startTime (sourcesRef s1) = [Some 0] \<and> nextStartTimeRef s1 = 1 \<and>
       map startTime (sourcesRef s2) = [Some 0, Some 1] \<and> nextStartTimeRef s2 = 3 / 2"
    by (simp add: handler_defs msg_defs initialApp_def Let_def)
qed

text \<open>The law at the second buffer of the example: handled at clock 0.3 in the state left by
  the first, it is started at 1.\<close>

theorem audio_fragment_scheduled_witness:
  "(0::real) \<le> 3 / 10 \<and> base64Audio (audioMessage ''B2'') = Some ''B2'' \<and>
   decodeB ''B2'' = Inr \<lparr>duration = 1 / 2\<rparr> \<and>
   handleAudio decodeB (3 / 10) (audioMessage ''B2'') afterB1 =
     (Returned,
      afterB1\<lparr>nextStartTimeRef := 3 / 2, nextNodeId := 2,
        sourcesRef := sourcesRef afterB1 @
          [\<lparr>nodeId = 1, buffer = \<lparr>duration = 1 / 2\<rparr>, startTime = Some 1\<rparr>]\<rparr>)"
  using audio_fragment_scheduled
    [of "3 / 10" "audioMessage ''B2''" "''B2''" decodeB "\<lparr>duration = 1 / 2\<rparr>" afterB1]
  by (simp add: afterB1_def handler_defs msg_defs initialApp_def Let_def)



section \<open>Ending a session\<close>

text \<open>
  Claim C9. \<^verbatim>\<open>endSession\<close> in the initial state, where the stream, the audio context and
  the session are unset and the registry is empty, returns and changes nothing. In every
  reachable state it returns, and a second call right after the first returns as well and
  leaves the state as the first call left it.
\<close>

theorem endSession_safe_idempotent:
  "endSession initialApp = (Returned, initialApp) \<and>
   (reachable decodeAudio s \<longrightarrow>
      fst (endSession s) = Returned \<and>
      endSession (snd (endSession s)) = (Returned, snd (endSession s)))"
proof (intro conjI impI)
  show "endSession initialApp = (Returned, initialApp)"
    by (simp add: endSession_def initialApp_def)
next
  assume "reachable decodeAudio s"
  then have st: "registryStarted s" by (rule reachable_registryStarted)
  then show "fst (endSession s) = Returned" by (simp add: endSession_started)
  have st': "registryStarted (snd (endSession s))" using st by (rule registryStarted_endSession)
  show "endSession (snd (endSession s)) = (Returned, snd (endSession s))"
    unfolding endSession_started [OF st'] unfolding endSession_started [OF st]
    by (simp split: option.splits)
qed

text \<open>A live session with one scheduled source is reachable; ending it once and twice
  returns.\<close>

theorem endSession_safe_idempotent_witness:
  "reachable decodeB liveSession \<and> length (sourcesRef liveSession) = 1 \<and>
   fst (endSession liveSession) = Returned \<and>
   endSession (snd (endSession liveSession)) = (Returned, snd (endSession liveSession))"
proof -
  have r: "reachable decodeB liveSession"
    unfolding liveSession_def connectedSession_def readyApp_def
    by (intro reachable_run reachable_init)
  have "length (sourcesRef liveSession) = 1"
    by (simp add: demo_defs life_defs handler_defs msg_defs initialApp_def Let_def)
  then show ?thesis using r endSession_safe_idempotent [of decodeB liveSession] by simp
qed

text \<open>
  Claim C4. \<^verbatim>\<open>endSession\<close> never writes the next start time: it is after the call what
  it was before. In the live session with one buffer of one second scheduled, the next start
  time is 1 and still 1 after \<^verbatim>\<open>endSession\<close>, where the interruption sets it to 0. When the
  game is ended, played again and connected again, the first buffer of the new session, handled
  at clock 0.1 of the new output context, is started at the stale time 1.
\<close>

theorem endSession_keeps_nextStartTime:
  "nextStartTimeRef (snd (endSession s)) = nextStartTimeRef s \<and>
   nextStartTimeRef liveSession = 1 \<and>
   nextStartTimeRef (snd (endSession liveSession)) = 1 \<and>
   nextStartTimeRef (snd (handleInterruption interruptedMessage liveSession)) = 0 \<and>
   map startTime (sourcesRef (run decodeB
      [EvEndGame, EvPlayAgain, EvHandleStart demoConfig (Inr [demoQuestion]),
       EvStartLiveSession (Inr ()), EvOpen, EvMessage (1 / 10) (audioMessage ''B2'')]
      liveSession)) = [Some 1]"
proof (intro conjI)
  show "nextStartTimeRef (snd (endSession s)) = nextStartTimeRef s"
    by (simp add: endSession_def Let_def split: option.splits prod.splits)
qed (simp_all add: demo_defs life_defs handler_defs msg_defs initialApp_def Let_def
       del: not_None_eq)

section \<open>Transport callbacks\<close>

lemma callback_dispatch:
  "callbackEvent ev \<Longrightarrow>
   phase (dispatch decodeAudio ev s) = phase s \<and>
   stoppedStreams (dispatch decodeAudio ev s) = stoppedStreams s \<and>
   closedContexts (dispatch decodeAudio ev s) = closedContexts s"
proof (cases ev)
  case (EvMessage clockNow message)
  let ?t = "handleTranscript message s"
  let ?a = "handleAudio decodeAudio clockNow message ?t"
  have t: "phase ?t = phase s \<and> stoppedStreams ?t = stoppedStreams s \<and>
      closedContexts ?t = closedContexts s"
    by (simp add: handleTranscript_def split: option.splits)
  have a: "phase (snd ?a) = phase ?t \<and> stoppedStreams (snd ?a) = stoppedStreams ?t \<and>
      closedContexts (snd ?a) = closedContexts ?t"
    by (simp add: handleAudio_def Let_def split: option.splits sum.splits)
  have i: "\<And>x. phase (snd (handleInterruption message x)) = phase x \<and>
      stoppedStreams (snd (handleInterruption message x)) = stoppedStreams x \<and>
      closedContexts (snd (handleInterruption message x)) = closedContexts x"
    by (simp add: handleInterruption_def split: prod.splits option.splits)
  show ?thesis using EvMessage t a i by (simp add: onmessage_cases split: outcome.splits)
qed (simp_all add: onopen_def onclose_def onerror_def onended_def)

lemma callback_run:
  "list_all callbackEvent evs \<Longrightarrow>
   phase (run decodeAudio evs s) = phase s \<and>
   stoppedStreams (run decodeAudio evs s) = stoppedStreams s \<and>
   closedContexts (run decodeAudio evs s) = closedContexts s"
  by (induction evs arbitrary: s) (simp_all add: callback_dispatch)

text \<open>
  Claim C5, as the code has it. The transport-closed callback lowers the connected flag and
  writes nothing else; the transport-error callback sets the error message
  \<^verbatim>\<open>Connection error.\<close> and writes nothing else. No sequence of callbacks (open, message,
  close, error, source ended) changes the phase, stops the tracks of a stream or closes an
  audio context.
\<close>

theorem transport_callbacks_keep_phase:
  "dispatch decodeAudio EvClose s = s\<lparr>isConnected := False\<rparr> \<and>
   dispatch decodeAudio EvError s = s\<lparr>error := Some ''Connection error.''\<rparr> \<and>
   (list_all callbackEvent evs \<longrightarrow>
      phase (run decodeAudio evs s) = phase s \<and>
      stoppedStreams (run decodeAudio evs s) = stoppedStreams s \<and>
      closedContexts (run decodeAudio evs s) = closedContexts s)"
  by (simp add: onclose_def onerror_def callback_run)

text \<open>A message, an error and a close in a connected session: the phase is still
  \<open>PLAYING\<close>, no stream is stopped and no context closed.\<close>

theorem transport_callbacks_keep_phase_witness:
  "list_all callbackEvent [EvMessage 0 (audioMessage ''B1''), EvError, EvClose] \<and>
   phase (run decodeB [EvMessage 0 (audioMessage ''B1''), EvError, EvClose] connectedSession)
     = PLAYING \<and>
   stoppedStreams (run decodeB [EvMessage 0 (audioMessage ''B1''), EvError, EvClose]
     connectedSession) = [] \<and>
   closedContexts (run decodeB [EvMessage 0 (audioMessage ''B1''), EvError, EvClose]
     connectedSession) = []"
  using transport_callbacks_keep_phase
    [of decodeB connectedSession "[EvMessage 0 (audioMessage ''B1''), EvError, EvClose]"]
  by (simp add: demo_defs life_defs initialApp_def Let_def)

text \<open>
  Claim C5 as stated fails: in the connected session, after the transport-closed callback the
  phase is not \<open>ENDED\<close>, the stream of the ref (number 0) is not stopped and the output
  context of the ref (number 1) is not closed; after the transport-error callback the phase is
  not \<open>ENDED\<close> either.
\<close>

theorem onclose_does_not_end_session:
  "isConnected connectedSession \<and> phase connectedSession = PLAYING \<and>
   phase (dispatch decodeB EvClose connectedSession) \<noteq> ENDED \<and>
   streamRef (dispatch decodeB EvClose connectedSession) = Some 0 \<and>
   stoppedStreams (dispatch decodeB EvClose connectedSession) = [] \<and>
   audioContextRef (dispatch decodeB EvClose connectedSession) = Some 1 \<and>
   closedContexts (dispatch decodeB EvClose connectedSession) = [] \<and>
   phase (dispatch decodeB EvError connectedSession) \<noteq> ENDED"
  by (simp add: demo_defs life_defs initialApp_def Let_def)

section \<open>A fragment that fails to decode\<close>

lemma handleTranscript_nextStartTime:
  "handleTranscript message (t\<lparr>nextStartTimeRef := x\<rparr>) =
     (handleTranscript message t)\<lparr>nextStartTimeRef := x\<rparr> \<and>
   nextStartTimeRef (handleTranscript message t) = nextStartTimeRef t"
  by (simp add: handleTranscript_def split: option.splits)

lemma onmessage_decode_fails:
  assumes "base64Audio message = Some b64" "decodeAudio b64 = Inl e"
  shows "onmessage decodeAudio clockNow message s =
     (Thrown e,
      (handleTranscript message s)\<lparr>nextStartTimeRef := max (nextStartTimeRef s) clockNow\<rparr>)"
  using assms
  by (simp add: onmessage_def handleAudio_def handleTranscript_def Let_def split: option.splits)

text \<open>A later buffer is scheduled from the maximum of the next start time and its own clock
  reading, so an earlier move of the next start time up to an earlier reading changes nothing.\<close>

lemma handleAudio_absorbs_bump:
  assumes "clockNow \<le> clockNow2" "base64Audio message2 = Some b2"
  shows "handleAudio decodeAudio clockNow2 message2
           (t\<lparr>nextStartTimeRef := max (nextStartTimeRef t) clockNow\<rparr>)
     = handleAudio decodeAudio clockNow2 message2 t"
proof -
  have m: "max (max (nextStartTimeRef t) clockNow) clockNow2 = max (nextStartTimeRef t) clockNow2"
    using assms(1) by simp
  show ?thesis
    using assms(2) by (simp add: handleAudio_def Let_def m split: sum.splits)
qed

lemma onmessage_absorbs_bump:
  assumes "clockNow \<le> clockNow2" "base64Audio message2 = Some b2"
  shows "onmessage decodeAudio clockNow2 message2
           (t\<lparr>nextStartTimeRef := max (nextStartTimeRef t) clockNow\<rparr>)
     = onmessage decodeAudio clockNow2 message2 t"
proof -
  let ?u = "handleTranscript message2 t"
  have "handleAudio decodeAudio clockNow2 message2
          (handleTranscript message2 (t\<lparr>nextStartTimeRef := max (nextStartTimeRef t) clockNow\<rparr>))
      = handleAudio decodeAudio clockNow2 message2 ?u"
    using handleAudio_absorbs_bump [OF assms, of decodeAudio ?u]
    by (simp add: handleTranscript_nextStartTime)
  then show ?thesis by (simp add: onmessage_def)
qed

text \<open>
  Claim C6. When the audio of a message fails to decode with the exception \<open>e\<close>, the handler
  ends with \<open>e\<close>; the callback is an \<^verbatim>\<open>async\<close> function, so the exception rejects the
  promise it returned and reaches nobody. Nothing of the fragment is played: no source node is
  created, the registry and the stop calls are as before. The phase, the connected flag, the
  error message, the streams and the contexts are as before. What the handler wrote before the
  exception stays: the text of the message, if it has one, and the next start time moved up to
  the clock reading. The next fragments are handled as usual: a later message that carries
  audio, handled at a clock reading that is not earlier, gives the outcome and the state it
  would give had the audio of the failed fragment never arrived.
\<close>

theorem decode_failure_is_local:
  "base64Audio message = Some b64 \<and> decodeAudio b64 = Inl e \<longrightarrow>
     onmessage decodeAudio clockNow message s =
       (Thrown e,
        (handleTranscript message s)\<lparr>nextStartTimeRef := max (nextStartTimeRef s) clockNow\<rparr>) \<and>
     phase (snd (onmessage decodeAudio clockNow message s)) = phase s \<and>
     isConnected (snd (onmessage decodeAudio clockNow message s)) = isConnected s \<and>
     error (snd (onmessage decodeAudio clockNow message s)) = error s \<and>
     sourcesRef (snd (onmessage decodeAudio clockNow message s)) = sourcesRef s \<and>
     stopCalls (snd (onmessage decodeAudio clockNow message s)) = stopCalls s \<and>
     stoppedStreams (snd (onmessage decodeAudio clockNow message s)) = stoppedStreams s \<and>
     closedContexts (snd (onmessage decodeAudio clockNow message s)) = closedContexts s \<and>
     (clockNow \<le> clockNow2 \<and> base64Audio message2 = Some b2 \<longrightarrow>
        onmessage decodeAudio clockNow2 message2 (snd (onmessage decodeAudio clockNow message s)) =
        onmessage decodeAudio clockNow2 message2 (handleTranscript message s))"
proof (intro impI)
  assume h: "base64Audio message = Some b64 \<and> decodeAudio b64 = Inl e"
  have eq: "onmessage decodeAudio clockNow message s =
     (Thrown e,
      (handleTranscript message s)\<lparr>nextStartTimeRef := max (nextStartTimeRef s) clockNow\<rparr>)"
    using h by (simp add: onmessage_decode_fails)
  have n: "nextStartTimeRef (handleTranscript message s) = nextStartTimeRef s"
    by (simp add: handleTranscript_nextStartTime)
  have ab: "clockNow \<le> clockNow2 \<and> base64Audio message2 = Some b2 \<longrightarrow>
        onmessage decodeAudio clockNow2 message2 (snd (onmessage decodeAudio clockNow message s)) =
        onmessage decodeAudio clockNow2 message2 (handleTranscript message s)"
    unfolding eq
    using onmessage_absorbs_bump
      [of clockNow clockNow2 message2 b2 decodeAudio "handleTranscript message s"] n
    by simp
  show "onmessage decodeAudio clockNow message s =
       (Thrown e,
        (handleTranscript message s)\<lparr>nextStartTimeRef := max (nextStartTimeRef s) clockNow\<rparr>) \<and>
     phase (snd (onmessage decodeAudio clockNow message s)) = phase s \<and>
     isConnected (snd (onmessage decodeAudio clockNow message s)) = isConnected s \<and>
     error (snd (onmessage decodeAudio clockNow message s)) = error s \<and>
     sourcesRef (snd (onmessage decodeAudio clockNow message s)) = sourcesRef s \<and>
     stopCalls (snd (onmessage decodeAudio clockNow message s)) = stopCalls s \<and>
     stoppedStreams (snd (onmessage decodeAudio clockNow message s)) = stoppedStreams s \<and>
     closedContexts (snd (onmessage decodeAudio clockNow message s)) = closedContexts s \<and>
     (clockNow \<le> clockNow2 \<and> base64Audio message2 = Some b2 \<longrightarrow>
        onmessage decodeAudio clockNow2 message2 (snd (onmessage decodeAudio clockNow message s)) =
        onmessage decodeAudio clockNow2 message2 (handleTranscript message s))"
    using ab unfolding eq by (simp add: handleTranscript_def split: option.splits)
qed

text \<open>In the live session, a payload that does not decode arrives at clock 2 and a good
  buffer at clock 3: the session is still playing and connected, its one source is still
  registered, and the good buffer is started at 3, as it would be without the bad payload.\<close>

theorem decode_failure_is_local_witness:
  "base64Audio (audioMessage ''%%'') = Some ''%%'' \<and> decodeB ''%%'' = Inl DecodeError \<and>
   fst (onmessage decodeB 2 (audioMessage ''%%'') liveSession) = Thrown DecodeError \<and>
   phase (snd (onmessage decodeB 2 (audioMessage ''%%'') liveSession)) = PLAYING \<and>
   isConnected (snd (onmessage decodeB 2 (audioMessage ''%%'') liveSession)) \<and>
   length (sourcesRef (snd (onmessage decodeB 2 (audioMessage ''%%'') liveSession))) = 1 \<and>
   (2::real) \<le> 3 \<and> base64Audio (audioMessage ''B2'') = Some ''B2'' \<and>
   onmessage decodeB 3 (audioMessage ''B2'')
     (snd (onmessage decodeB 2 (audioMessage ''%%'') liveSession)) =
   onmessage decodeB 3 (audioMessage ''B2'') liveSession \<and>
   map startTime (sourcesRef (snd (onmessage decodeB 3 (audioMessage ''B2'')
     (snd (onmessage decodeB 2 (audioMessage ''%%'') liveSession))))) = [Some 0, Some 3]"
  using decode_failure_is_local
    [of "audioMessage ''%%''" "''%%''" decodeB DecodeError 2 liveSession 3
      "audioMessage ''B2''" "''B2''"]
  by (simp add: demo_defs life_defs handler_defs msg_defs initialApp_def Let_def del: not_None_eq)

section \<open>The transcript\<close>

lemma transcript_handleAudio:
  "transcript (snd (handleAudio decodeAudio clockNow message s)) = transcript s"
  by (simp add: handleAudio_def Let_def split: option.splits sum.splits)

lemma transcript_handleInterruption:
  "transcript (snd (handleInterruption message s)) = transcript s"
  by (simp add: handleInterruption_def split: prod.splits option.splits)

lemma transcript_endSession: "transcript (snd (endSession s)) = transcript s"
  by (simp add: endSession_def Let_def split: option.splits prod.splits)

lemma transcript_onmessage:
  "transcript (snd (onmessage decodeAudio clockNow message s)) =
   transcript (handleTranscript message s)"
  by (simp add: onmessage_cases transcript_handleAudio transcript_handleInterruption
        split: outcome.splits)

lemma transcript_dispatch:
  "\<exists>ys. transcript (dispatch decodeAudio ev s) = transcript s @ ys"
proof (cases ev)
  case (EvMessage clockNow message)
  then show ?thesis
    by (simp add: transcript_onmessage handleTranscript_def split: option.splits)
next
  case EvEndGame
  have "transcript (snd (handleEndGame s)) = transcript (snd (endSession s))"
    by (cases "endSession s" rule: prod.exhaust; cases "fst (endSession s)")
       (auto simp: handleEndGame_def)
  then show ?thesis using EvEndGame by (simp add: transcript_endSession)
next
  case EvUnmount
  then show ?thesis by (simp add: transcript_endSession)
next
  case (EvHandleStart c g)
  then show ?thesis by (simp add: handleStart_def Let_def split: sum.splits)
next
  case (EvStartLiveSession m)
  then show ?thesis by (simp add: startLiveSession_def Let_def split: sum.splits)
qed (simp_all add: onopen_def onclose_def onerror_def playAgain_def onended_def)

lemma transcript_run: "\<exists>ys. transcript (run decodeAudio evs s) = transcript s @ ys"
proof (induction evs arbitrary: s)
  case Nil
  show ?case by simp
next
  case (Cons ev evs)
  obtain ys where a: "transcript (dispatch decodeAudio ev s) = transcript s @ ys"
    using transcript_dispatch by blast
  obtain zs where b: "transcript (run decodeAudio evs (dispatch decodeAudio ev s)) =
      transcript (dispatch decodeAudio ev s) @ zs"
    using Cons.IH by blast
  show ?case using a b by simp
qed

text \<open>
  Claim C7, as the code has it. A message whose first part carries a non-empty text \<open>t\<close>
  appends exactly the entry with the role \<open>model\<close> and the text \<open>t\<close> to the transcript; a
  message without such a text (no first part, no text in the first part, or an empty text
  there) leaves the transcript as it is, whatever its later parts carry. The transcript is
  append-only: after any sequence of events it is the earlier transcript followed by the new
  entries, so no entry is changed or removed and the entries stand in the order of receipt.
\<close>

theorem transcript_appends_first_part_text:
  "(messageText message = Some t \<longrightarrow>
      transcript (snd (onmessage decodeAudio clockNow message s)) = transcript s @ [(model, t)]) \<and>
   (messageText message = None \<longrightarrow>
      transcript (snd (onmessage decodeAudio clockNow message s)) = transcript s) \<and>
   (\<exists>ys. transcript (run decodeAudio evs s) = transcript s @ ys)"
  by (simp add: transcript_onmessage handleTranscript_def transcript_run)

text \<open>The text \<open>Hello!\<close> in the first part is appended in the connected session; a message
  with audio only appends nothing.\<close>

theorem transcript_appends_first_part_text_witness:
  "messageText (textMessage ''Hello!'') = Some ''Hello!'' \<and>
   transcript (snd (onmessage decodeB 0 (textMessage ''Hello!'') connectedSession)) =
     [(model, ''Hello!'')] \<and>
   messageText (audioMessage ''B1'') = None \<and>
   transcript (snd (onmessage decodeB 0 (audioMessage ''B1'') connectedSession)) = []"
  using transcript_appends_first_part_text
      [of "textMessage ''Hello!''" "''Hello!''" decodeB 0 connectedSession]
    transcript_appends_first_part_text
      [of "audioMessage ''B1''" "''x''" decodeB 0 connectedSession]
  by (simp add: messageText_def firstPart_def msg_defs demo_defs life_defs initialApp_def Let_def)

text \<open>
  Claim C7 as stated fails: in the connected session (phase \<open>PLAYING\<close>, connected flag
  raised, transcript empty), a message whose first part is audio and whose second part is the
  text \<open>Hello!\<close> appends nothing, and neither does a message whose text is the empty string.
\<close>

theorem later_part_text_not_appended:
  "isConnected connectedSession \<and> phase connectedSession = PLAYING \<and>
   transcript connectedSession = [] \<and>
   transcript (snd (onmessage decodeB 0 (audioThenTextMessage ''B1'' ''Hello!'')
     connectedSession)) = [] \<and>
   transcript (snd (onmessage decodeB 0 (textMessage []) connectedSession)) = []"
  by (simp add: handler_defs msg_defs demo_defs life_defs initialApp_def Let_def)

section \<open>Starting the live session without a microphone\<close>

text \<open>
  Claim C8. When the configuration and the questions are there and the microphone is refused
  with any exception \<open>e\<close>, \<^verbatim>\<open>startLiveSession\<close> returns, the error message
  \<^verbatim>\<open>Microphone access denied or API error.\<close> is set, the phase is \<open>SETUP\<close>, and
  \<^verbatim>\<open>ai.live.connect\<close> has not been called: the count of connections, the connected flag
  and the stream ref are as before.
\<close>

theorem microphone_denied_returns_to_setup:
  "config s \<noteq> None \<and> questions s \<noteq> [] \<longrightarrow>
     fst (startLiveSession (Inl e) s) = Returned \<and>
     error (snd (startLiveSession (Inl e) s)) = Some ''Microphone access denied or API error.'' \<and>
     phase (snd (startLiveSession (Inl e) s)) = SETUP \<and>
     connects (snd (startLiveSession (Inl e) s)) = connects s \<and>
     isConnected (snd (startLiveSession (Inl e) s)) = isConnected s \<and>
     streamRef (snd (startLiveSession (Inl e) s)) = streamRef s"
  by (simp add: startLiveSession_def Let_def)

text \<open>With one question ready and the microphone refused, the component is back at the
  setup screen with the message, and no connection was opened.\<close>

theorem microphone_denied_returns_to_setup_witness:
  "config readyApp \<noteq> None \<and> questions readyApp \<noteq> [] \<and> phase readyApp = READY \<and>
   fst (startLiveSession (Inl NotAllowedError) readyApp) = Returned \<and>
   error (snd (startLiveSession (Inl NotAllowedError) readyApp)) =
     Some ''Microphone access denied or API error.'' \<and>
   phase (snd (startLiveSession (Inl NotAllowedError) readyApp)) = SETUP \<and>
   connects (snd (startLiveSession (Inl NotAllowedError) readyApp)) = 0"
  using microphone_denied_returns_to_setup [of readyApp NotAllowedError]
  by (simp add: demo_defs handleStart_def initialApp_def Let_def del: not_None_eq)

section \<open>The questions returned by the generator\<close>

lemmas gen_defs =
  generateQuestions_def parseQuestions_def jsonSource_def jsonMatch_def
  fence_def startsWith_def isSpace_def parseEmptyArrayOnly_def fencedEmptyArray_def

lemma parseQuestions_source:
  "parseQuestions JSON_parse t text =
     (case JSON_parse (jsonSource text) of Inr parsed \<Rightarrow> parsed | Inl e \<Rightarrow> [fallbackQuestion t])"
  by (simp add: parseQuestions_def jsonSource_def split: option.splits)

text \<open>
  Claim C10, as the code has it. When the model call succeeds, \<^verbatim>\<open>generateQuestions\<close>
  returns without an exception. When \<^verbatim>\<open>JSON.parse\<close> refuses the text it is given (the
  group of the fenced block when there is one and it is not empty, the whole text otherwise),
  the list returned is the one fallback question. When \<^verbatim>\<open>JSON.parse\<close> accepts the text,
  the parsed value is returned as it is, whatever its length.
\<close>

theorem generateQuestions_fallback_on_parse_failure:
  "(JSON_parse (jsonSource (case responseText response of None \<Rightarrow> [] | Some x \<Rightarrow> x)) = Inl e \<longrightarrow>
      generateQuestions JSON_parse t (Inr response) =
        Inr ([fallbackQuestion t],
             case groundingChunks response of None \<Rightarrow> [] | Some cs \<Rightarrow> cs)) \<and>
   (JSON_parse (jsonSource (case responseText response of None \<Rightarrow> [] | Some x \<Rightarrow> x)) = Inr parsed \<longrightarrow>
      generateQuestions JSON_parse t (Inr response) =
        Inr (parsed, case groundingChunks response of None \<Rightarrow> [] | Some cs \<Rightarrow> cs))"
  by (simp add: generateQuestions_def parseQuestions_source Let_def)

text \<open>A reply that is no JSON gives the fallback question; a reply that fences the empty
  array gives the empty list.\<close>

theorem generateQuestions_fallback_on_parse_failure_witness:
  "parseEmptyArrayOnly (jsonSource ''Sorry, no questions.'') = Inl SyntaxError \<and>
   generateQuestions parseEmptyArrayOnly ''Space''
     (Inr \<lparr>responseText = Some ''Sorry, no questions.'', groundingChunks = None\<rparr>) =
     Inr ([fallbackQuestion ''Space''], []) \<and>
   parseEmptyArrayOnly (jsonSource fencedEmptyArray) = Inr [] \<and>
   generateQuestions parseEmptyArrayOnly ''Space''
     (Inr \<lparr>responseText = Some fencedEmptyArray, groundingChunks = None\<rparr>) = Inr ([], [])"
  using generateQuestions_fallback_on_parse_failure
      [of parseEmptyArrayOnly
        "\<lparr>responseText = Some ''Sorry, no questions.'', groundingChunks = None\<rparr>"
        SyntaxError "''Space''" "[]"]
    generateQuestions_fallback_on_parse_failure
      [of parseEmptyArrayOnly "\<lparr>responseText = Some fencedEmptyArray, groundingChunks = None\<rparr>"
        SyntaxError "''Space''" "[]"]
  by (simp add: gen_defs Let_def)

text \<open>
  Claim C10 as stated fails: the model call succeeds and the reply is the empty array, bare
  or inside a fenced block; \<^verbatim>\<open>JSON.parse\<close> accepts it and the list returned is empty.
\<close>

theorem generateQuestions_empty_array:
  "generateQuestions parseEmptyArrayOnly ''Space''
     (Inr \<lparr>responseText = Some ''[]'', groundingChunks = None\<rparr>) = Inr ([], []) \<and>
   generateQuestions parseEmptyArrayOnly ''Space''
     (Inr \<lparr>responseText = Some fencedEmptyArray, groundingChunks = None\<rparr>) = Inr ([], [])"
  by (simp add: gen_defs Let_def)

section \<open>The round trip of the PCM codec\<close>

lemma cat_littleEndian:
  "word_cat (ucast (drop_bit 8 w) :: 8 word) (ucast w :: 8 word) = (w :: 16 word)"
  by (rule bit_word_eqI) (auto simp: bit_simps)

lemma int16s_encode: "int16s (encode xs) = map quantize xs"
  by (induction xs) (simp_all add: encode_def littleEndian_def cat_littleEndian)

lemma length_encode: "length (encode xs) = 2 * length xs"
  by (induction xs) (simp_all add: encode_def littleEndian_def)

lemma sint16: "- 32768 \<le> k \<Longrightarrow> k < 32768 \<Longrightarrow> sint (word_of_int k :: 16 word) = k"
  by (simp add: sint_sbintrunc' signed_take_bit_int_eq_self)

lemma quantize_nonneg:
  assumes "0 \<le> x" "x \<le> 1"
  shows "sint (quantize x) = \<lfloor>x * 32767\<rfloor>"
proof -
  have c: "clamp x = x" using assms by (simp add: clamp_def)
  have lo: "0 \<le> \<lfloor>x * 32767\<rfloor>" using assms by simp
  have "x * 32767 \<le> 32767" using assms by simp
  then have "\<lfloor>x * 32767\<rfloor> \<le> 32767" by (simp add: floor_le_iff)
  then have "sint (word_of_int \<lfloor>x * 32767\<rfloor> :: 16 word) = \<lfloor>x * 32767\<rfloor>"
    using lo by (intro sint16) linarith+
  then show ?thesis using assms c by (simp add: quantize_def truncToInt_def Let_def)
qed

lemma quantize_neg:
  assumes "- 1 \<le> x" "x < 0"
  shows "sint (quantize x) = \<lceil>x * 32768\<rceil>"
proof -
  have c: "clamp x = x" using assms by (simp add: clamp_def)
  have "- 32768 \<le> x * 32768" using assms by simp
  then have lo: "- 32768 \<le> \<lceil>x * 32768\<rceil>" by (simp add: le_ceiling_iff)
  have "x * 32768 \<le> 0" using assms by simp
  then have "\<lceil>x * 32768\<rceil> \<le> 0" by (simp add: ceiling_le_iff)
  then have "sint (word_of_int \<lceil>x * 32768\<rceil> :: 16 word) = \<lceil>x * 32768\<rceil>"
    using lo by (intro sint16) linarith+
  then show ?thesis using assms c by (simp add: quantize_def truncToInt_def Let_def)
qed

text \<open>A negative sample is scaled by 32768 both ways and comes back within 1/32768. A
  positive sample is scaled by 32767 on the way out and divided by 32768 on the way back, so
  to the truncation error, below 1/32767, the difference of the two scales is added, which is
  below 1/32768.\<close>

lemma quantize_error:
  assumes "- 1 \<le> x" "x \<le> 1"
  shows "\<bar>real_of_int (sint (quantize x)) / 32768 - x\<bar> < 1 / 16384"
proof (cases "x < 0")
  case True
  let ?k = "\<lceil>x * 32768\<rceil>"
  have q: "sint (quantize x) = ?k" using assms True by (simp add: quantize_neg)
  have a: "x * 32768 \<le> real_of_int ?k" by (rule le_of_int_ceiling)
  have b: "real_of_int ?k < x * 32768 + 1" by linarith
  show ?thesis unfolding q using a b by linarith
next
  case False
  let ?k = "\<lfloor>x * 32767\<rfloor>"
  have q: "sint (quantize x) = ?k" using assms False by (simp add: quantize_nonneg)
  have a: "real_of_int ?k \<le> x * 32767" by (rule of_int_floor_le)
  have b: "x * 32767 < real_of_int ?k + 1" by (rule real_of_int_floor_add_one_gt)
  have nn: "0 \<le> real_of_int ?k" using False by simp
  show ?thesis
  proof (cases "x = 1")
    case True
    then show ?thesis unfolding q by simp
  next
    case False
    then have "x < 1" using assms by simp
    then have "x * 32767 < 32767" by simp
    then have "?k < 32767" by (simp add: floor_less_iff)
    then have c: "real_of_int ?k \<le> 32766" by linarith
    have up: "real_of_int ?k / 32768 - x < 1 / 16384"
      using a nn \<open>\<not> x < 0\<close> by linarith
    have dn: "x - real_of_int ?k / 32768 < 1 / 16384"
      using b c by linarith
    show ?thesis unfolding q using up dn by linarith
  qed
qed

lemma decode_encode:
  "decode (encode xs) rate 1 =
     Inr \<lparr>samples = map (\<lambda>x. real_of_int (sint (quantize x)) / 0x8000) xs,
           sampleRate = rate, numberOfChannels = 1\<rparr>"
  by (simp add: decode_def length_encode int16s_encode comp_def)

lemma quantize_zero: "quantize 0 = 0"
  by (simp add: quantize_def clamp_def truncToInt_def)

lemma encode_silence: "encode (replicate n 0) = replicate (2 * n) 0"
  by (induction n) (simp_all add: encode_def littleEndian_def quantize_zero)

lemma int16s_silence: "int16s (replicate (2 * n) 0) = replicate n 0"
  by (induction n) (simp_all add: word_cat_eq)

lemma decode_silence:
  "decode (replicate (2 * n) 0) rate 1 =
     Inr \<lparr>samples = replicate n 0, sampleRate = rate, numberOfChannels = 1\<rparr>"
  by (simp add: decode_def int16s_silence)

lemma quantize_example: "quantize (65535 / 65536) = 32766"
  by (simp add: quantize_def clamp_def truncToInt_def)

text \<open>
  Claim C3, as the codec of the spec has it. For samples in [-1, 1], decoding the encoding
  as one channel succeeds, gives as many samples as went in, and each is within 1/16384 of its
  original. The encoding has two bytes for each sample. A silent chunk of 4096 zeros is encoded
  as 8192 zero bytes, and these decode to 4096 zero samples.
\<close>

theorem pcm_round_trip_bound:
  "(list_all (\<lambda>x. - 1 \<le> x \<and> x \<le> 1) xs \<longrightarrow>
      (\<exists>buf. decode (encode xs) rate 1 = Inr buf \<and> length (samples buf) = length xs \<and>
         (\<forall>i < length xs. \<bar>samples buf ! i - xs ! i\<bar> < 1 / 16384))) \<and>
   length (encode xs) = 2 * length xs \<and>
   encode (replicate 4096 0) = replicate 8192 0 \<and>
   decode (replicate 8192 0) rate 1 =
     Inr \<lparr>samples = replicate 4096 0, sampleRate = rate, numberOfChannels = 1\<rparr>"
proof (intro conjI impI)
  assume "list_all (\<lambda>x. - 1 \<le> x \<and> x \<le> 1) xs"
  then have h: "\<forall>x \<in> set xs. - 1 \<le> x \<and> x \<le> 1" by (simp add: list_all_iff)
  let ?buf = "\<lparr>samples = map (\<lambda>x. real_of_int (sint (quantize x)) / 0x8000) xs,
           sampleRate = rate, numberOfChannels = 1\<rparr>"
  have "\<forall>i < length xs. \<bar>samples ?buf ! i - xs ! i\<bar> < 1 / 16384"
    using h quantize_error by simp
  then show "\<exists>buf. decode (encode xs) rate 1 = Inr buf \<and> length (samples buf) = length xs \<and>
         (\<forall>i < length xs. \<bar>samples buf ! i - xs ! i\<bar> < 1 / 16384)"
    using decode_encode [of xs rate] by (intro exI [of _ ?buf]) simp
next
  show "length (encode xs) = 2 * length xs" by (rule length_encode)
next
  show "encode (replicate 4096 0) = replicate 8192 0"
    using encode_silence [of 4096] by simp
next
  show "decode (replicate 8192 0) rate 1 =
     Inr \<lparr>samples = replicate 4096 0, sampleRate = rate, numberOfChannels = 1\<rparr>"
    using decode_silence [of 4096 rate] by simp
qed

text \<open>Five samples in range, the two ends of the range among them, come back within the
  bound.\<close>

theorem pcm_round_trip_bound_witness:
  "list_all (\<lambda>x. - 1 \<le> x \<and> x \<le> 1) [0, 1, - 1, 1 / 2, 65535 / 65536 :: real] \<and>
   (\<exists>buf. decode (encode [0, 1, - 1, 1 / 2, 65535 / 65536]) 24000 1 = Inr buf \<and>
      length (samples buf) = length [0, 1, - 1, 1 / 2, 65535 / 65536 :: real] \<and>
      (\<forall>i < length [0, 1, - 1, 1 / 2, 65535 / 65536 :: real].
         \<bar>samples buf ! i - [0, 1, - 1, 1 / 2, 65535 / 65536] ! i\<bar> < 1 / 16384))"
proof -
  have h: "list_all (\<lambda>x. - 1 \<le> x \<and> x \<le> 1) [0, 1, - 1, 1 / 2, 65535 / 65536 :: real]"
    by simp
  show ?thesis
    using h pcm_round_trip_bound [of "[0, 1, - 1, 1 / 2, 65535 / 65536]" 24000] by blast
qed

text \<open>
  Claim C3 as stated fails: the sample 65535/65536 lies in [-1, 1]; it is encoded as the
  bytes FE 7F, the value 32766, and decoded as 16383/16384, which is 3/65536 away from it, more
  than 1/32767.
\<close>

theorem pcm_round_trip_exceeds_claimed_bound:
  "- 1 \<le> (65535 / 65536 :: real) \<and> (65535 / 65536 :: real) \<le> 1 \<and>
   encode [65535 / 65536] = [0xFE, 0x7F] \<and>
   decode (encode [65535 / 65536]) 24000 1 =
     Inr \<lparr>samples = [16383 / 16384], sampleRate = 24000, numberOfChannels = 1\<rparr> \<and>
   \<not> \<bar>16383 / 16384 - 65535 / 65536 :: real\<bar> \<le> 1 / 32767"
  by (simp add: encode_def littleEndian_def decode_def quantize_example word_cat_eq)

end
